theory Spec2Isabelle
  imports Complex_Main
begin

section \<open>Python values\<close>

text \<open>
  The values that travel between the appliance client, \<^verbatim>\<open>daikinthing.py\<close> and the
  property values are dynamically typed. A float is represented by the real number it
  denotes: the program only tests the type of a float and compares it for equality, it
  never computes with one. A \<^verbatim>\<open>str\<close> is the list of its code points, over the range
  U+0000 .. U+00FF that \<^typ>\<open>char\<close> enumerates.
\<close>

datatype pyval = PNone | PBool bool | PInt int | PFloat real | PStr string

text \<open>The number a value of type \<^verbatim>\<open>bool\<close>, \<^verbatim>\<open>int\<close> or \<^verbatim>\<open>float\<close> stands for
  (\<^verbatim>\<open>bool\<close> is a subclass of \<^verbatim>\<open>int\<close>, with \<^verbatim>\<open>True == 1\<close> and \<^verbatim>\<open>False == 0\<close>).\<close>

fun py_num :: "pyval \<Rightarrow> real option" where
  "py_num (PBool b) = Some (if b then 1 else 0)"
| "py_num (PInt i) = Some (of_int i)"
| "py_num (PFloat r) = Some r"
| "py_num PNone = None"
| "py_num (PStr s) = None"

text \<open>Python's \<^verbatim>\<open>==\<close> on these values: numbers compare by value across the three numeric
  types, strings with strings, \<^verbatim>\<open>None\<close> with itself, and everything else is unequal.\<close>

fun py_eq :: "pyval \<Rightarrow> pyval \<Rightarrow> bool" where
  "py_eq PNone PNone = True"
| "py_eq (PStr s) (PStr t) = (s = t)"
| "py_eq a b = (case (py_num a, py_num b) of (Some x, Some y) \<Rightarrow> x = y | _ \<Rightarrow> False)"

text \<open>Truth value of an object, as \<^verbatim>\<open>1 if power_state else 0\<close> tests it.\<close>

fun truthy :: "pyval \<Rightarrow> bool" where
  "truthy PNone = False"
| "truthy (PBool b) = b"
| "truthy (PInt i) = (i \<noteq> 0)"
| "truthy (PFloat r) = (r \<noteq> 0)"
| "truthy (PStr s) = (s \<noteq> [])"

text \<open>\<^verbatim>\<open>isinstance(v, (int, float))\<close>: a \<^verbatim>\<open>bool\<close> is an instance of \<^verbatim>\<open>int\<close>.\<close>

fun isinstance_int_float :: "pyval \<Rightarrow> bool" where
  "isinstance_int_float (PBool b) = True"
| "isinstance_int_float (PInt i) = True"
| "isinstance_int_float (PFloat r) = True"
| "isinstance_int_float PNone = False"
| "isinstance_int_float (PStr s) = False"

fun isinstance_str :: "pyval \<Rightarrow> bool" where
  "isinstance_str (PStr s) = True"
| "isinstance_str v = False"

text \<open>
  \<^verbatim>\<open>str.isnumeric()\<close> holds of a string that has at least one character and whose
  characters all carry the Unicode numeric property. Below U+0100 these are the ten
  digits U+0030 .. U+0039, the superscripts U+00B2, U+00B3, U+00B9 and the fractions
  U+00BC, U+00BD, U+00BE.
\<close>

definition decimal_digit :: "char \<Rightarrow> bool" where
  "decimal_digit c = (48 \<le> (of_char c :: nat) \<and> (of_char c :: nat) \<le> 57)"

definition chr_isnumeric :: "char \<Rightarrow> bool" where
  "chr_isnumeric c =
     (decimal_digit c \<or> (of_char c :: nat) \<in> {178, 179, 185, 188, 189, 190})"

definition isnumeric :: "string \<Rightarrow> bool" where
  "isnumeric s = (s \<noteq> [] \<and> list_all chr_isnumeric s)"

definition ascii :: "char \<Rightarrow> bool" where
  "ascii c = ((of_char c :: nat) < 128)"

section \<open>Value translation\<close>

text \<open>
  The test that guards the temperature notifications of \<^verbatim>\<open>DaikinAC.update_level\<close>
  (lines 132 and 134):
  \<^verbatim>\<open>isinstance(x, (int, float)) or (isinstance(x, str) and x.isnumeric())\<close>.
\<close>

definition is_numeric :: "pyval \<Rightarrow> bool" where
  "is_numeric x =
     (isinstance_int_float x \<or>
      (isinstance_str x \<and> (case x of PStr s \<Rightarrow> isnumeric s | _ \<Rightarrow> False)))"

text \<open>
  The chain of lines 116 to 127 of \<^verbatim>\<open>DaikinAC.update_level\<close>, which computes
  \<^verbatim>\<open>tmode\<close> from the raw \<^verbatim>\<open>power\<close> and \<^verbatim>\<open>mode\<close> fields with \<^verbatim>\<open>==\<close>.
\<close>

definition decode_mode :: "pyval \<Rightarrow> pyval \<Rightarrow> string" where
  "decode_mode pow mode =
     (if py_eq pow (PInt 0) then ''off''
      else if py_eq mode (PInt 2) then ''dehumid''
      else if py_eq mode (PInt 3) then ''cool''
      else if py_eq mode (PInt 4) then ''heat''
      else if py_eq mode (PInt 6) then ''fan''
      else ''auto'')"

text \<open>The values of the \<^verbatim>\<open>enum\<close> of the \<^verbatim>\<open>mode\<close> property (line 78).\<close>

definition thermo_mode_enum :: "string list" where
  "thermo_mode_enum = [''off'', ''auto'', ''cool'', ''heat'', ''dehumid'', ''fan'']"

text \<open>
  The reference table of the specification, written from its words: the closed
  enumeration of modes, the names the property shows for them, and
  \<^verbatim>\<open>decode_mode(power, mode_code)\<close> on integers.
\<close>

datatype SemanticMode = Off | Auto | Cool | Heat | Dehumidify | Fan

fun mode_name :: "SemanticMode \<Rightarrow> string" where
  "mode_name Off = ''off''"
| "mode_name Auto = ''auto''"
| "mode_name Cool = ''cool''"
| "mode_name Heat = ''heat''"
| "mode_name Dehumidify = ''dehumid''"
| "mode_name Fan = ''fan''"

definition decode_mode_spec :: "int \<Rightarrow> int \<Rightarrow> SemanticMode" where
  "decode_mode_spec p mode_code =
     (if p = 0 then Off
      else if mode_code = 2 then Dehumidify
      else if mode_code = 3 then Cool
      else if mode_code = 4 then Heat
      else if mode_code = 6 then Fan
      else Auto)"

section \<open>The appliance client\<close>

text \<open>
  \<^verbatim>\<open>Daikin(ip_addr)\<close> is the client of the \<^verbatim>\<open>daikinapi\<close> package. Reading one of its
  attributes sends a request to the appliance and either returns a value or raises;
  assigning to one sends a command. \<open>ReadError\<close> stands for whatever a read raises,
  \<open>WriteError\<close> for whatever an assignment raises, \<open>CancelledError\<close> is the exception
  of \<^verbatim>\<open>asyncio\<close>.
\<close>

datatype exn = CancelledError | ReadError | WriteError

text \<open>
  What the appliance answers during one iteration of a loop, attribute by attribute.
  An attribute that is read more than once in an iteration gives the same answer each
  time.
\<close>

record Daikin =
  daikin_inside_temperature :: "exn + pyval"
  daikin_target_temperature :: "exn + pyval"
  daikin_mode :: "exn + pyval"
  daikin_power :: "exn + pyval"
  daikin_outside_temperature :: "exn + pyval"

text \<open>A statement that reads an attribute: the exception leaves the statement's
  surroundings with the state as it is, the value goes on to the rest.\<close>

definition read :: "exn + pyval \<Rightarrow> 's \<Rightarrow> (pyval \<Rightarrow> exn option \<times> 's) \<Rightarrow> exn option \<times> 's" where
  "read r s k = (case r of Inl e \<Rightarrow> (Some e, s) | Inr v \<Rightarrow> k v)"

section \<open>The property values\<close>

text \<open>
  \<^verbatim>\<open>Value\<close> is a class of the \<^verbatim>\<open>webthing\<close> package; a property shows the
  \<^verbatim>\<open>last_value\<close> of its \<^verbatim>\<open>Value\<close>. Its method \<^verbatim>\<open>notify_of_external_update(value)\<close>
  stores the value unless it is \<^verbatim>\<open>None\<close> or equal (\<^verbatim>\<open>==\<close>) to the stored one:
  \<^verbatim>\<open>if value is not None and value != self.last_value: self.last_value = value\<close>.
\<close>

definition notify_of_external_update :: "pyval \<Rightarrow> pyval \<Rightarrow> pyval" where
  "notify_of_external_update last_value v =
     (if v \<noteq> PNone \<and> \<not> py_eq v last_value then v else last_value)"

text \<open>One call of \<^verbatim>\<open>notify_of_external_update\<close>: when it was made, on the value of
  which property, with which argument.\<close>

type_synonym update = "nat \<times> string \<times> pyval"

definition UPDATE_THING_SECONDS :: nat where
  "UPDATE_THING_SECONDS = 15"

section \<open>DaikinAC\<close>

text \<open>
  The four \<^verbatim>\<open>Value\<close> objects of a \<^verbatim>\<open>DaikinAC\<close>, each by its \<^verbatim>\<open>last_value\<close>, and the
  calls of \<^verbatim>\<open>notify_of_external_update\<close> made on them so far, oldest first.
\<close>

record DaikinAC =
  room_temperature :: pyval
  target_temperature :: pyval
  thermo_mode :: pyval
  power_value :: pyval
  ac_updates :: "update list"

text \<open>The values \<^verbatim>\<open>__init__\<close> creates (lines 41, 55, 69 and 83).\<close>

definition DaikinAC_init :: DaikinAC where
  "DaikinAC_init =
     \<lparr>room_temperature = PFloat 0, target_temperature = PFloat 0,
      thermo_mode = PStr ''off'', power_value = PBool False, ac_updates = []\<rparr>"

definition notify_room_temperature :: "nat \<Rightarrow> pyval \<Rightarrow> DaikinAC \<Rightarrow> DaikinAC" where
  "notify_room_temperature now v self =
     self\<lparr>room_temperature := notify_of_external_update (room_temperature self) v,
          ac_updates := ac_updates self @ [(now, ''room_temperature'', v)]\<rparr>"

definition notify_target_temperature :: "nat \<Rightarrow> pyval \<Rightarrow> DaikinAC \<Rightarrow> DaikinAC" where
  "notify_target_temperature now v self =
     self\<lparr>target_temperature := notify_of_external_update (target_temperature self) v,
          ac_updates := ac_updates self @ [(now, ''target_temperature'', v)]\<rparr>"

definition notify_thermo_mode :: "nat \<Rightarrow> pyval \<Rightarrow> DaikinAC \<Rightarrow> DaikinAC" where
  "notify_thermo_mode now v self =
     self\<lparr>thermo_mode := notify_of_external_update (thermo_mode self) v,
          ac_updates := ac_updates self @ [(now, ''mode'', v)]\<rparr>"

definition notify_power :: "nat \<Rightarrow> pyval \<Rightarrow> DaikinAC \<Rightarrow> DaikinAC" where
  "notify_power now v self =
     self\<lparr>power_value := notify_of_external_update (power_value self) v,
          ac_updates := ac_updates self @ [(now, ''power'', v)]\<rparr>"

text \<open>
  The body of the \<^verbatim>\<open>while\<close> loop of \<^verbatim>\<open>DaikinAC.update_level\<close> after the sleep (lines
  105 to 137), at time \<open>now\<close>, with the answers \<open>daikinac\<close> of the appliance. The
  arguments of the \<^verbatim>\<open>logging.debug\<close> call of line 115 read \<^verbatim>\<open>power\<close> and \<^verbatim>\<open>mode\<close>
  again, and so does line 131 when \<^verbatim>\<open>DEBUG\<close> is set. The result is the exception that
  leaves the body, if any, and the object as the body leaves it.
\<close>

definition ac_poll :: "bool \<Rightarrow> nat \<Rightarrow> Daikin \<Rightarrow> DaikinAC \<Rightarrow> exn option \<times> DaikinAC" where
  "ac_poll DEBUG now daikinac self =
     read (daikin_inside_temperature daikinac) self (\<lambda>in_temp.
     let tgt_temp = (case daikin_target_temperature daikinac of
                       Inl e \<Rightarrow> PNone | Inr v \<Rightarrow> v) in
     read (daikin_mode daikinac) self (\<lambda>mode.
     read (daikin_power daikinac) self (\<lambda>pow.
     read (daikin_power daikinac) self (\<lambda>_.
     read (daikin_mode daikinac) self (\<lambda>_.
     let tmode = decode_mode pow mode in
     read (if DEBUG then daikin_power daikinac else Inr PNone) self (\<lambda>_.
     read (if DEBUG then daikin_mode daikinac else Inr PNone) self (\<lambda>_.
     let self1 = (if is_numeric in_temp
                  then notify_room_temperature now in_temp self else self);
         self2 = (if is_numeric tgt_temp
                  then notify_target_temperature now tgt_temp self1 else self1);
         self3 = notify_thermo_mode now (PStr tmode) self2;
         self4 = notify_power now pow self3
     in (None, self4))))))))"

text \<open>
  What reaches a loop while it is suspended in \<^verbatim>\<open>await sleep(UPDATE_THING_SECONDS)\<close>:
  either the task is cancelled, and the \<^verbatim>\<open>await\<close> raises \<^verbatim>\<open>CancelledError\<close>, or the
  sleep returns, \<open>late\<close> seconds after the \<^verbatim>\<open>UPDATE_THING_SECONDS\<close> it asked for, and
  the appliance answers the reads of the iteration that follows.
\<close>

datatype 'd tick = Cancel | Wake nat 'd

text \<open>How a run stands after the ticks it was given: still suspended in a sleep,
  returned, or left by an exception.\<close>

datatype outcome = Sleeping | Returned | Raised exn

text \<open>
  \<^verbatim>\<open>DaikinAC.update_level\<close> (lines 101 to 141) from time \<open>now\<close>, on the ticks that reach
  it. The \<^verbatim>\<open>try\<close> encloses the whole \<^verbatim>\<open>while True\<close>; its only handler is
  \<^verbatim>\<open>except CancelledError: pass\<close>.
\<close>

fun DaikinAC_update_level ::
  "bool \<Rightarrow> Daikin tick list \<Rightarrow> nat \<Rightarrow> DaikinAC \<Rightarrow> outcome \<times> nat \<times> DaikinAC" where
  "DaikinAC_update_level DEBUG [] now self = (Sleeping, now, self)"
| "DaikinAC_update_level DEBUG (Cancel # ts) now self = (Returned, now, self)"
| "DaikinAC_update_level DEBUG (Wake late daikinac # ts) now self =
     (case ac_poll DEBUG (now + UPDATE_THING_SECONDS + late) daikinac self of
        (None, self') \<Rightarrow>
          DaikinAC_update_level DEBUG ts (now + UPDATE_THING_SECONDS + late) self'
      | (Some e, self') \<Rightarrow>
          (if e = CancelledError then Returned else Raised e,
           now + UPDATE_THING_SECONDS + late, self'))"

section \<open>DaikinCondenser\<close>

record DaikinCondenser =
  outside_temperature :: pyval
  condenser_updates :: "update list"

text \<open>The value \<^verbatim>\<open>__init__\<close> creates (line 185).\<close>

definition DaikinCondenser_init :: DaikinCondenser where
  "DaikinCondenser_init = \<lparr>outside_temperature = PFloat 0, condenser_updates = []\<rparr>"

definition notify_outside_temperature ::
  "nat \<Rightarrow> pyval \<Rightarrow> DaikinCondenser \<Rightarrow> DaikinCondenser" where
  "notify_outside_temperature now v self =
     self\<lparr>outside_temperature := notify_of_external_update (outside_temperature self) v,
          condenser_updates := condenser_updates self @ [(now, ''outside_temperature'', v)]\<rparr>"

text \<open>The body of the loop of \<^verbatim>\<open>DaikinCondenser.update_level\<close> after the sleep (lines
  208 to 212); \<^verbatim>\<open>DEBUG\<close> only adds a log line there.\<close>

definition condenser_poll ::
  "nat \<Rightarrow> Daikin \<Rightarrow> DaikinCondenser \<Rightarrow> exn option \<times> DaikinCondenser" where
  "condenser_poll now daikinac self =
     read (daikin_outside_temperature daikinac) self (\<lambda>out_temp.
     (None, notify_outside_temperature now out_temp self))"

text \<open>\<^verbatim>\<open>DaikinCondenser.update_level\<close> (lines 204 to 216).\<close>

fun DaikinCondenser_update_level ::
  "Daikin tick list \<Rightarrow> nat \<Rightarrow> DaikinCondenser \<Rightarrow> outcome \<times> nat \<times> DaikinCondenser" where
  "DaikinCondenser_update_level [] now self = (Sleeping, now, self)"
| "DaikinCondenser_update_level (Cancel # ts) now self = (Returned, now, self)"
| "DaikinCondenser_update_level (Wake late daikinac # ts) now self =
     (case condenser_poll (now + UPDATE_THING_SECONDS + late) daikinac self of
        (None, self') \<Rightarrow>
          DaikinCondenser_update_level ts (now + UPDATE_THING_SECONDS + late) self'
      | (Some e, self') \<Rightarrow>
          (if e = CancelledError then Returned else Raised e,
           now + UPDATE_THING_SECONDS + late, self'))"

section \<open>Cancelling a loop\<close>






section \<open>The write callbacks\<close>

text \<open>
  An assignment to an attribute of the client sends one command to the appliance. An
  installation is a \<^verbatim>\<open>DaikinAC\<close> together with the commands its appliance has been
  sent, oldest first. \<open>up\<close> tells whether the appliance takes the request; when it does
  not, the assignment raises.
\<close>

datatype attribute = Target_temperature | Power | Mode

type_synonym command = "attribute \<times> pyval"

record installation =
  thing :: DaikinAC
  commands :: "command list"

definition assign :: "bool \<Rightarrow> command \<Rightarrow> installation \<Rightarrow> exn option \<times> installation" where
  "assign up c w =
     (if up then (None, w\<lparr>commands := commands w @ [c]\<rparr>) else (Some WriteError, w))"

text \<open>\<^verbatim>\<open>set_tgt_temp\<close> (lines 143 to 145).\<close>

definition set_tgt_temp :: "bool \<Rightarrow> pyval \<Rightarrow> installation \<Rightarrow> exn option \<times> installation" where
  "set_tgt_temp up new_temp w = assign up (Target_temperature, new_temp) w"

text \<open>\<^verbatim>\<open>set_power\<close> (lines 147 to 149).\<close>

definition set_power :: "bool \<Rightarrow> pyval \<Rightarrow> installation \<Rightarrow> exn option \<times> installation" where
  "set_power up power_state w =
     assign up (Power, PInt (if truthy power_state then 1 else 0)) w"

text \<open>The assignment that the chain of \<^verbatim>\<open>set_tmode\<close> (lines 153 to 164) selects.\<close>

definition encode_mode :: "pyval \<Rightarrow> command" where
  "encode_mode new_tmode =
     (if py_eq new_tmode (PStr ''off'') then (Power, PInt 0)
      else if py_eq new_tmode (PStr ''dehumid'') then (Mode, PInt 2)
      else if py_eq new_tmode (PStr ''cool'') then (Mode, PInt 3)
      else if py_eq new_tmode (PStr ''heat'') then (Mode, PInt 4)
      else if py_eq new_tmode (PStr ''fan'') then (Mode, PInt 6)
      else (Mode, PInt 1))"

text \<open>\<^verbatim>\<open>set_tmode\<close> (lines 151 to 164).\<close>

definition set_tmode :: "bool \<Rightarrow> pyval \<Rightarrow> installation \<Rightarrow> exn option \<times> installation" where
  "set_tmode up new_tmode w = assign up (encode_mode new_tmode) w"

text \<open>The power and mode fields after a command, from those before it: a command
  sets the field of its attribute and leaves the other one untouched.\<close>

fun written :: "command \<Rightarrow> pyval \<times> pyval \<Rightarrow> pyval \<times> pyval" where
  "written (Power, v) (p, m) = (v, m)"
| "written (Mode, v) (p, m) = (p, v)"
| "written (Target_temperature, v) (p, m) = (p, m)"

section \<open>Properties of the value translation\<close>

lemma ascii_numeric_is_digit: "ascii c \<Longrightarrow> chr_isnumeric c = decimal_digit c"
  by (auto simp: ascii_def chr_isnumeric_def)

lemma ascii_isnumeric_digits:
  "list_all ascii s \<Longrightarrow> list_all chr_isnumeric s = list_all decimal_digit s"
  by (induction s) (simp_all add: ascii_numeric_is_digit)

text \<open>
  C3. On integers the translation of the raw power and mode fields is the reference
  table: power 0 gives off for every mode code; otherwise the codes 2, 3, 4 and 6 give
  dehumid, cool, heat and fan, and every other code gives auto. The result is always
  one of the six names of the mode property, never an error.
\<close>

theorem decode_mode_table:
  "decode_mode (PInt p) (PInt mode_code) = mode_name (decode_mode_spec p mode_code)
   \<and> decode_mode (PInt p) (PInt mode_code) \<in> set thermo_mode_enum
   \<and> decode_mode (PInt 0) (PInt mode_code) = ''off''"
  by (simp add: decode_mode_def decode_mode_spec_def thermo_mode_enum_def)

text \<open>
  C4, as stated, fails: the string that consists of the character U+00BD (the fraction
  one half) passes the filter although that character is not a decimal digit.
\<close>

theorem is_numeric_vulgar_fraction:
  "is_numeric (PStr [CHR 0xBD]) \<and> \<not> decimal_digit (CHR 0xBD)"
  by (simp add: is_numeric_def isnumeric_def chr_isnumeric_def decimal_digit_def)

text \<open>
  C4, amended. The filter holds of every \<^verbatim>\<open>int\<close>, \<^verbatim>\<open>float\<close> and \<^verbatim>\<open>bool\<close>, not of
  \<^verbatim>\<open>None\<close>, and of a string exactly when the string is not empty and all its characters
  are numeric in the sense of \<^verbatim>\<open>str.isnumeric\<close>; for a string of ASCII characters that
  is: not empty and decimal digits only. It accepts \<^verbatim>\<open>21.5\<close> and \<^verbatim>\<open>"21"\<close> and rejects
  \<^verbatim>\<open>"N/A"\<close> and \<^verbatim>\<open>"21.5"\<close>.
\<close>

theorem is_numeric_characterisation:
  "is_numeric (PInt i) \<and> is_numeric (PFloat r) \<and> is_numeric (PBool b) \<and> \<not> is_numeric PNone
   \<and> is_numeric (PStr s) = (s \<noteq> [] \<and> list_all chr_isnumeric s)
   \<and> (list_all ascii s \<longrightarrow> is_numeric (PStr s) = (s \<noteq> [] \<and> list_all decimal_digit s))
   \<and> is_numeric (PFloat 21.5) \<and> is_numeric (PStr ''21'')
   \<and> \<not> is_numeric (PStr ''N/A'') \<and> \<not> is_numeric (PStr ''21.5'')"
proof -
  have str: "is_numeric (PStr s) = (s \<noteq> [] \<and> list_all chr_isnumeric s)" for s
    by (simp add: is_numeric_def isnumeric_def)
  have "\<not> is_numeric (PStr ''N/A'')" "\<not> is_numeric (PStr ''21.5'')" "is_numeric (PStr ''21'')"
    by (simp_all add: str chr_isnumeric_def decimal_digit_def)
  moreover have "list_all ascii s \<longrightarrow> is_numeric (PStr s) = (s \<noteq> [] \<and> list_all decimal_digit s)"
    by (simp add: str ascii_isnumeric_digits)
  ultimately show ?thesis
    by (simp add: str) (simp add: is_numeric_def)
qed

theorem is_numeric_characterisation_witness:
  "list_all ascii ''21'' \<and>
   is_numeric (PStr ''21'') = (''21'' \<noteq> [] \<and> list_all decimal_digit ''21'')"
proof -
  have h: "list_all ascii ''21''" by (simp add: ascii_def)
  from is_numeric_characterisation [of 0 0 True "''21''"] h show ?thesis by blast
qed

text \<open>
  C5. For each of the six mode names \<open>t\<close>, the assignment that \<^verbatim>\<open>set_tmode\<close> makes for
  \<open>t\<close>, decoded again, gives \<open>t\<close>: with the field it leaves untouched absent
  (\<^verbatim>\<open>None\<close>), and with that field holding any mode for off or any power other than 0
  for the five other names. Off is written as power 0, auto as mode 1, and power 1
  with mode 1 decodes to auto.
\<close>

theorem mode_round_trip:
  "t \<in> set thermo_mode_enum \<Longrightarrow>
     case_prod decode_mode (written (encode_mode (PStr t)) (PNone, PNone)) = t
     \<and> (t = ''off'' \<or> \<not> py_eq p (PInt 0) \<longrightarrow>
          case_prod decode_mode (written (encode_mode (PStr t)) (p, m)) = t)
     \<and> encode_mode (PStr ''off'') = (Power, PInt 0)
     \<and> encode_mode (PStr ''auto'') = (Mode, PInt 1)
     \<and> decode_mode (PInt 1) (PInt 1) = ''auto''"
  by (auto simp: thermo_mode_enum_def encode_mode_def decode_mode_def)

theorem mode_round_trip_witness:
  "''cool'' \<in> set thermo_mode_enum \<and> \<not> py_eq (PInt 1) (PInt 0)
   \<and> case_prod decode_mode (written (encode_mode (PStr ''cool'')) (PInt 1, PInt 4)) = ''cool''"
proof -
  have h: "''cool'' \<in> set thermo_mode_enum" by (simp add: thermo_mode_enum_def)
  show ?thesis using h mode_round_trip [OF h, of "PInt 1" "PInt 4"] by simp
qed

section \<open>Properties of the write callbacks\<close>

text \<open>
  C7. Each of the three write callbacks, on every argument and whether or not the
  appliance takes the request, leaves the \<^verbatim>\<open>DaikinAC\<close> with all its values and without
  a new notification: all it does is send at most one command to the appliance.
\<close>

theorem callbacks_leave_thing:
  "thing (snd (set_tgt_temp up v w)) = thing w
   \<and> thing (snd (set_power up v w)) = thing w
   \<and> thing (snd (set_tmode up v w)) = thing w
   \<and> commands (snd (set_tgt_temp up v w)) =
       commands w @ (if up then [(Target_temperature, v)] else [])
   \<and> commands (snd (set_power up v w)) =
       commands w @ (if up then [(Power, PInt (if truthy v then 1 else 0))] else [])
   \<and> commands (snd (set_tmode up v w)) =
       commands w @ (if up then [encode_mode v] else [])"
  by (simp add: set_tgt_temp_def set_power_def set_tmode_def assign_def)

section \<open>Properties of the update loops\<close>

lemma read_Inl: "read (Inl e) s k = (Some e, s)"
  by (simp add: read_def)

lemma read_Inr: "read (Inr v) s k = k v"
  by (simp add: read_def)

lemma ac_poll_ok:
  assumes "daikin_inside_temperature d = Inr in_temp"
      and "daikin_mode d = Inr mode" and "daikin_power d = Inr pow"
  shows "ac_poll DEBUG now d self =
    (None,
     notify_power now pow
       (notify_thermo_mode now (PStr (decode_mode pow mode))
         (let tgt_temp = (case daikin_target_temperature d of Inl e \<Rightarrow> PNone | Inr v \<Rightarrow> v);
              self1 = (if is_numeric in_temp
                       then notify_room_temperature now in_temp self else self)
          in if is_numeric tgt_temp
             then notify_target_temperature now tgt_temp self1 else self1)))"
  using assms by (simp add: ac_poll_def read_Inr Let_def)

lemma ac_poll_raises:
  assumes "fst (ac_poll DEBUG now d self) = Some e"
  shows "snd (ac_poll DEBUG now d self) = self"
proof (cases "daikin_inside_temperature d")
  case (Inl a)
  then show ?thesis by (simp add: ac_poll_def read_Inl)
next
  case in_temp: (Inr a)
  show ?thesis
  proof (cases "daikin_mode d")
    case (Inl b)
    with in_temp show ?thesis by (simp add: ac_poll_def read_Inl read_Inr)
  next
    case mode: (Inr b)
    show ?thesis
    proof (cases "daikin_power d")
      case (Inl c)
      with in_temp mode show ?thesis by (simp add: ac_poll_def read_Inl read_Inr)
    next
      case (Inr c)
      with in_temp mode assms show ?thesis by (simp add: ac_poll_ok)
    qed
  qed
qed

lemma ac_poll_read_error:
  assumes "Inl ReadError \<in> {daikin_inside_temperature d, daikin_mode d, daikin_power d}"
      and "\<forall>e. Inl e \<in> {daikin_inside_temperature d, daikin_mode d, daikin_power d}
             \<longrightarrow> e = ReadError"
  shows "ac_poll DEBUG now d self = (Some ReadError, self)"
  using assms
  by (cases "daikin_inside_temperature d"; cases "daikin_mode d"; cases "daikin_power d")
     (auto simp: ac_poll_def read_Inl read_Inr Let_def)

lemma DaikinAC_update_level_append:
  "DaikinAC_update_level DEBUG (ts @ ts') now self =
     (case DaikinAC_update_level DEBUG ts now self of
        (Sleeping, now', self') \<Rightarrow> DaikinAC_update_level DEBUG ts' now' self'
      | r \<Rightarrow> r)"
proof (induction ts arbitrary: now self)
  case Nil
  show ?case by simp
next
  case (Cons t ts)
  show ?case
  proof (cases t)
    case Cancel
    then show ?thesis by simp
  next
    case (Wake late d)
    then show ?thesis
      by (simp add: Cons.IH split: prod.splits option.splits)
  qed
qed

lemma DaikinCondenser_update_level_append:
  "DaikinCondenser_update_level (ts @ ts') now self =
     (case DaikinCondenser_update_level ts now self of
        (Sleeping, now', self') \<Rightarrow> DaikinCondenser_update_level ts' now' self'
      | r \<Rightarrow> r)"
proof (induction ts arbitrary: now self)
  case Nil
  show ?case by simp
next
  case (Cons t ts)
  show ?case
  proof (cases t)
    case Cancel
    then show ?thesis by simp
  next
    case (Wake late d)
    then show ?thesis
      by (simp add: Cons.IH split: prod.splits option.splits)
  qed
qed

text \<open>
  C1, amended. In any iteration of \<^verbatim>\<open>DaikinAC.update_level\<close> in which a read of
  the inside temperature, the mode or the power fails with a read error, and in any
  iteration of \<^verbatim>\<open>DaikinCondenser.update_level\<close> in which the read of the outside
  temperature does, nothing is notified (the object stays as the iteration found it),
  and the exception leaves the loop, which is over: whatever ticks follow, there is no
  further sleep and no further poll.
\<close>

theorem read_error_ends_update_level:
  "(DaikinAC_update_level DEBUG ts now self = (Sleeping, now1, self1)
    \<longrightarrow> Inl ReadError \<in> {daikin_inside_temperature d, daikin_mode d, daikin_power d}
    \<longrightarrow> (\<forall>e. Inl e \<in> {daikin_inside_temperature d, daikin_mode d, daikin_power d}
           \<longrightarrow> e = ReadError)
    \<longrightarrow> DaikinAC_update_level DEBUG (ts @ Wake late d # rest) now self =
          (Raised ReadError, now1 + UPDATE_THING_SECONDS + late, self1))
   \<and> (DaikinCondenser_update_level cts cnow cself = (Sleeping, cnow1, cself1)
    \<longrightarrow> daikin_outside_temperature d' = Inl ReadError
    \<longrightarrow> DaikinCondenser_update_level (cts @ Wake late' d' # crest) cnow cself =
          (Raised ReadError, cnow1 + UPDATE_THING_SECONDS + late', cself1))"
proof (intro conjI impI)
  assume run: "DaikinAC_update_level DEBUG ts now self = (Sleeping, now1, self1)"
    and fails: "Inl ReadError \<in> {daikin_inside_temperature d, daikin_mode d, daikin_power d}"
    and only: "\<forall>e. Inl e \<in> {daikin_inside_temperature d, daikin_mode d, daikin_power d}
           \<longrightarrow> e = ReadError"
  from fails only
  have "ac_poll DEBUG (now1 + UPDATE_THING_SECONDS + late) d self1 = (Some ReadError, self1)"
    by (rule ac_poll_read_error)
  with run show "DaikinAC_update_level DEBUG (ts @ Wake late d # rest) now self =
          (Raised ReadError, now1 + UPDATE_THING_SECONDS + late, self1)"
    by (simp add: DaikinAC_update_level_append)
next
  assume run: "DaikinCondenser_update_level cts cnow cself = (Sleeping, cnow1, cself1)"
    and "daikin_outside_temperature d' = Inl ReadError"
  then have "condenser_poll (cnow1 + UPDATE_THING_SECONDS + late') d' cself1 = (Some ReadError, cself1)"
    by (simp add: condenser_poll_def read_Inl)
  with run show "DaikinCondenser_update_level (cts @ Wake late' d' # crest) cnow cself =
          (Raised ReadError, cnow1 + UPDATE_THING_SECONDS + late', cself1)"
    by (simp add: DaikinCondenser_update_level_append)
qed

text \<open>
  C1, as stated, fails: a loop whose first poll cannot read the inside temperature ends
  with that exception, and the poll that would follow, with an appliance that answers,
  never takes place.
\<close>

theorem update_level_stops_at_read_error:
  "DaikinAC_update_level False
     [Wake 0 \<lparr>daikin_inside_temperature = Inl ReadError,
              daikin_target_temperature = Inr (PFloat 22),
              daikin_mode = Inr (PInt 3), daikin_power = Inr (PInt 1),
              daikin_outside_temperature = Inr (PFloat 5)\<rparr>,
      Wake 0 \<lparr>daikin_inside_temperature = Inr (PFloat 21.5),
              daikin_target_temperature = Inr (PFloat 22),
              daikin_mode = Inr (PInt 3), daikin_power = Inr (PInt 1),
              daikin_outside_temperature = Inr (PFloat 5)\<rparr>]
     0 DaikinAC_init
   = (Raised ReadError, 15, DaikinAC_init)"
  by (simp add: ac_poll_def read_Inl UPDATE_THING_SECONDS_def)

theorem read_error_ends_update_level_witness:
  "DaikinAC_update_level False [] 0 DaikinAC_init = (Sleeping, 0, DaikinAC_init)
   \<and> DaikinAC_update_level False
       ([] @ Wake 2 \<lparr>daikin_inside_temperature = Inr (PFloat 21.5),
                     daikin_target_temperature = Inr (PFloat 22),
                     daikin_mode = Inl ReadError, daikin_power = Inr (PInt 1),
                     daikin_outside_temperature = Inl ReadError\<rparr> # [Cancel])
       0 DaikinAC_init
     = (Raised ReadError, 0 + UPDATE_THING_SECONDS + 2, DaikinAC_init)
   \<and> DaikinCondenser_update_level [] 0 DaikinCondenser_init
     = (Sleeping, 0, DaikinCondenser_init)
   \<and> DaikinCondenser_update_level
       ([] @ Wake 2 \<lparr>daikin_inside_temperature = Inr (PFloat 21.5),
                     daikin_target_temperature = Inr (PFloat 22),
                     daikin_mode = Inl ReadError, daikin_power = Inr (PInt 1),
                     daikin_outside_temperature = Inl ReadError\<rparr> # [Cancel])
       0 DaikinCondenser_init
     = (Raised ReadError, 0 + UPDATE_THING_SECONDS + 2, DaikinCondenser_init)"
  using read_error_ends_update_level
    [of False "[]" 0 DaikinAC_init 0 DaikinAC_init
        "\<lparr>daikin_inside_temperature = Inr (PFloat 21.5),
          daikin_target_temperature = Inr (PFloat 22),
          daikin_mode = Inl ReadError, daikin_power = Inr (PInt 1),
          daikin_outside_temperature = Inl ReadError\<rparr>"
        2 "[Cancel]" "[]" 0 DaikinCondenser_init 0 DaikinCondenser_init
        "\<lparr>daikin_inside_temperature = Inr (PFloat 21.5),
          daikin_target_temperature = Inr (PFloat 22),
          daikin_mode = Inl ReadError, daikin_power = Inr (PInt 1),
          daikin_outside_temperature = Inl ReadError\<rparr>"
        2 "[Cancel]"]
  by simp

text \<open>
  C6. When the read of the target temperature fails in an iteration of
  \<^verbatim>\<open>DaikinAC.update_level\<close> whose other reads succeed, the iteration ends without an
  exception: the target temperature gets no notification and keeps its value, the
  room temperature is notified if it passes the filter, the mode and the power are
  notified, and the loop goes on with the next tick.
\<close>

theorem failed_target_read_is_skipped:
  assumes "daikin_target_temperature d = Inl e"
      and "daikin_inside_temperature d = Inr in_temp"
      and "daikin_mode d = Inr mode" and "daikin_power d = Inr pow"
  shows "fst (ac_poll DEBUG now d self) = None
    \<and> target_temperature (snd (ac_poll DEBUG now d self)) = target_temperature self
    \<and> ac_updates (snd (ac_poll DEBUG now d self)) =
        ac_updates self
        @ (if is_numeric in_temp then [(now, ''room_temperature'', in_temp)] else [])
        @ [(now, ''mode'', PStr (decode_mode pow mode)), (now, ''power'', pow)]
    \<and> room_temperature (snd (ac_poll DEBUG now d self)) =
        (if is_numeric in_temp
         then notify_of_external_update (room_temperature self) in_temp
         else room_temperature self)
    \<and> thermo_mode (snd (ac_poll DEBUG now d self)) =
        notify_of_external_update (thermo_mode self) (PStr (decode_mode pow mode))
    \<and> power_value (snd (ac_poll DEBUG now d self)) =
        notify_of_external_update (power_value self) pow
    \<and> DaikinAC_update_level DEBUG (Wake late d # ts) now0 self =
        DaikinAC_update_level DEBUG ts (now0 + UPDATE_THING_SECONDS + late)
          (snd (ac_poll DEBUG (now0 + UPDATE_THING_SECONDS + late) d self))"
proof -
  have none: "\<not> is_numeric PNone"
    by (simp add: is_numeric_def)
  have ok: "ac_poll DEBUG t d self =
      (None, notify_power t pow (notify_thermo_mode t (PStr (decode_mode pow mode))
         (if is_numeric in_temp then notify_room_temperature t in_temp self else self)))" for t
    using assms by (simp add: ac_poll_ok none)
  let ?r = "snd (ac_poll DEBUG now d self)"
  note defs = notify_power_def notify_thermo_mode_def notify_room_temperature_def
  show ?thesis
  proof (intro conjI)
    show "fst (ac_poll DEBUG now d self) = None"
      by (simp add: ok)
    show "target_temperature ?r = target_temperature self"
      by (simp add: ok defs)
    show "ac_updates ?r = ac_updates self
        @ (if is_numeric in_temp then [(now, ''room_temperature'', in_temp)] else [])
        @ [(now, ''mode'', PStr (decode_mode pow mode)), (now, ''power'', pow)]"
      by (simp add: ok defs)
    show "room_temperature ?r =
        (if is_numeric in_temp
         then notify_of_external_update (room_temperature self) in_temp
         else room_temperature self)"
      by (simp add: ok defs)
    show "thermo_mode ?r =
        notify_of_external_update (thermo_mode self) (PStr (decode_mode pow mode))"
      by (simp add: ok defs)
    show "power_value ?r = notify_of_external_update (power_value self) pow"
      by (simp add: ok defs)
    show "DaikinAC_update_level DEBUG (Wake late d # ts) now0 self =
        DaikinAC_update_level DEBUG ts (now0 + UPDATE_THING_SECONDS + late)
          (snd (ac_poll DEBUG (now0 + UPDATE_THING_SECONDS + late) d self))"
      by (simp add: ok)
  qed
qed

theorem failed_target_read_is_skipped_witness:
  "fst (ac_poll False 15
          \<lparr>daikin_inside_temperature = Inr (PFloat 21.5),
           daikin_target_temperature = Inl ReadError,
           daikin_mode = Inr (PInt 3), daikin_power = Inr (PInt 1),
           daikin_outside_temperature = Inr (PFloat 5)\<rparr> DaikinAC_init) = None
   \<and> target_temperature (snd (ac_poll False 15
          \<lparr>daikin_inside_temperature = Inr (PFloat 21.5),
           daikin_target_temperature = Inl ReadError,
           daikin_mode = Inr (PInt 3), daikin_power = Inr (PInt 1),
           daikin_outside_temperature = Inr (PFloat 5)\<rparr> DaikinAC_init)) = PFloat 0
   \<and> ac_updates (snd (ac_poll False 15
          \<lparr>daikin_inside_temperature = Inr (PFloat 21.5),
           daikin_target_temperature = Inl ReadError,
           daikin_mode = Inr (PInt 3), daikin_power = Inr (PInt 1),
           daikin_outside_temperature = Inr (PFloat 5)\<rparr> DaikinAC_init)) =
       [(15, ''room_temperature'', PFloat 21.5), (15, ''mode'', PStr ''cool''),
        (15, ''power'', PInt 1)]"
  using failed_target_read_is_skipped
    [of "\<lparr>daikin_inside_temperature = Inr (PFloat 21.5),
           daikin_target_temperature = Inl ReadError,
           daikin_mode = Inr (PInt 3), daikin_power = Inr (PInt 1),
           daikin_outside_temperature = Inr (PFloat 5)\<rparr>"
        ReadError "PFloat 21.5" "PInt 3" "PInt 1" False 15 DaikinAC_init]
  by (simp add: DaikinAC_init_def is_numeric_def decode_mode_def)






section \<open>What the loops notify, and when\<close>

text \<open>
  C2 at the condenser: \<^verbatim>\<open>DaikinCondenser.update_level\<close> notifies whatever the read of
  the outside temperature returns. When the appliance answers with the string
  \<^verbatim>\<open>"N/A"\<close>, which the filter of the indoor unit rejects, the string is pushed and
  becomes the value of the property.
\<close>

theorem condenser_notifies_non_numeric:
  "\<not> is_numeric (PStr ''N/A'')
   \<and> DaikinCondenser_update_level
       [Wake 0 \<lparr>daikin_inside_temperature = Inr (PFloat 21.5),
                daikin_target_temperature = Inr (PFloat 22),
                daikin_mode = Inr (PInt 3), daikin_power = Inr (PInt 1),
                daikin_outside_temperature = Inr (PStr ''N/A'')\<rparr>]
       0 DaikinCondenser_init
     = (Sleeping, 15,
        \<lparr>outside_temperature = PStr ''N/A'',
         condenser_updates = [(15, ''outside_temperature'', PStr ''N/A'')]\<rparr>)"
  by (simp add: is_numeric_def isnumeric_def chr_isnumeric_def decimal_digit_def
      condenser_poll_def read_Inr notify_outside_temperature_def
      notify_of_external_update_def DaikinCondenser_init_def UPDATE_THING_SECONDS_def)

text \<open>
  The indoor unit does filter: a reading of the inside temperature that is not
  numeric is not notified and leaves the room temperature as it was.
\<close>

lemma room_temperature_filtered:
  "\<not> is_numeric in_temp \<Longrightarrow> daikin_inside_temperature d = Inr in_temp \<Longrightarrow>
   room_temperature (snd (ac_poll DEBUG now d self)) = room_temperature self
   \<and> (\<forall>u \<in> set (ac_updates (snd (ac_poll DEBUG now d self))).
        fst (snd u) = ''room_temperature'' \<longrightarrow> u \<in> set (ac_updates self))"
proof (cases "fst (ac_poll DEBUG now d self)")
  case (Some e)
  then show ?thesis by (simp add: ac_poll_raises)
next
  case None
  assume a: "\<not> is_numeric in_temp" "daikin_inside_temperature d = Inr in_temp"
  from None a obtain mode pow where "daikin_mode d = Inr mode" "daikin_power d = Inr pow"
    by (cases "daikin_mode d"; cases "daikin_power d")
       (simp_all add: ac_poll_def read_Inl read_Inr)
  with a show ?thesis
    by (simp add: ac_poll_ok Let_def notify_power_def notify_thermo_mode_def
        notify_target_temperature_def)
qed

text \<open>
  C9, as stated, fails: after a first poll that goes through and reads the power 0, the
  value of the power property is still the boolean \<^verbatim>\<open>False\<close>, since \<^verbatim>\<open>0 == False\<close>
  and a notification with an equal value is not stored.
\<close>

theorem power_stays_boolean_when_off:
  "fst (DaikinAC_update_level False
         [Wake 0 \<lparr>daikin_inside_temperature = Inr (PFloat 21.5),
                  daikin_target_temperature = Inr (PFloat 22),
                  daikin_mode = Inr (PInt 3), daikin_power = Inr (PInt 0),
                  daikin_outside_temperature = Inr (PFloat 5)\<rparr>] 0 DaikinAC_init) = Sleeping
   \<and> power_value (snd (snd (DaikinAC_update_level False
         [Wake 0 \<lparr>daikin_inside_temperature = Inr (PFloat 21.5),
                  daikin_target_temperature = Inr (PFloat 22),
                  daikin_mode = Inr (PInt 3), daikin_power = Inr (PInt 0),
                  daikin_outside_temperature = Inr (PFloat 5)\<rparr>] 0 DaikinAC_init)))
     = PBool False"
  by (simp add: ac_poll_ok notify_power_def notify_of_external_update_def DaikinAC_init_def
      Let_def notify_thermo_mode_def notify_target_temperature_def notify_room_temperature_def)

lemma ac_poll_power:
  assumes "daikin_inside_temperature d = Inr in_temp"
      and "daikin_mode d = Inr mode" and "daikin_power d = Inr pow"
  shows "power_value (snd (ac_poll DEBUG now d self)) =
           notify_of_external_update (power_value self) pow"
    and "last (ac_updates (snd (ac_poll DEBUG now d self))) = (now, ''power'', pow)"
  using assms
  by (simp_all add: ac_poll_ok Let_def notify_power_def notify_thermo_mode_def
      notify_target_temperature_def notify_room_temperature_def)

text \<open>
  C9, amended. Every iteration of \<^verbatim>\<open>DaikinAC.update_level\<close> whose reads succeed
  notifies the power property last, with the integer it read, unconverted. The value
  of the property becomes that integer unless the integer equals (\<^verbatim>\<open>==\<close>) the value
  already there: from the initial \<^verbatim>\<open>False\<close> a reading of 0 leaves the boolean in
  place and any other reading replaces it by the integer.
\<close>

theorem power_notified_unconverted:
  assumes "daikin_inside_temperature d = Inr in_temp"
      and "daikin_mode d = Inr mode" and "daikin_power d = Inr (PInt p)"
  shows "fst (ac_poll DEBUG now d self) = None
    \<and> last (ac_updates (snd (ac_poll DEBUG now d self))) = (now, ''power'', PInt p)
    \<and> power_value (snd (ac_poll DEBUG now d self)) =
        (if py_eq (PInt p) (power_value self) then power_value self else PInt p)
    \<and> (power_value self = PBool False \<longrightarrow>
        power_value (snd (ac_poll DEBUG now d self)) =
          (if p = 0 then PBool False else PInt p))"
proof (intro conjI impI)
  show "fst (ac_poll DEBUG now d self) = None"
    using assms by (simp add: ac_poll_ok)
  show "last (ac_updates (snd (ac_poll DEBUG now d self))) = (now, ''power'', PInt p)"
    using assms by (rule ac_poll_power(2))
  have pv: "power_value (snd (ac_poll DEBUG now d self)) =
      notify_of_external_update (power_value self) (PInt p)"
    using assms by (rule ac_poll_power(1))
  show "power_value (snd (ac_poll DEBUG now d self)) =
      (if py_eq (PInt p) (power_value self) then power_value self else PInt p)"
    by (simp add: pv notify_of_external_update_def)
  assume "power_value self = PBool False"
  then show "power_value (snd (ac_poll DEBUG now d self)) =
      (if p = 0 then PBool False else PInt p)"
    by (simp add: pv notify_of_external_update_def)
qed

theorem power_notified_unconverted_witness:
  "power_value DaikinAC_init = PBool False
   \<and> fst (ac_poll False 15
          \<lparr>daikin_inside_temperature = Inr (PFloat 21.5),
           daikin_target_temperature = Inr (PFloat 22),
           daikin_mode = Inr (PInt 3), daikin_power = Inr (PInt 1),
           daikin_outside_temperature = Inr (PFloat 5)\<rparr> DaikinAC_init) = None
   \<and> power_value (snd (ac_poll False 15
          \<lparr>daikin_inside_temperature = Inr (PFloat 21.5),
           daikin_target_temperature = Inr (PFloat 22),
           daikin_mode = Inr (PInt 3), daikin_power = Inr (PInt 1),
           daikin_outside_temperature = Inr (PFloat 5)\<rparr> DaikinAC_init)) = PInt 1"
proof -
  have h: "power_value DaikinAC_init = PBool False"
    by (simp add: DaikinAC_init_def)
  from h power_notified_unconverted
    [of "\<lparr>daikin_inside_temperature = Inr (PFloat 21.5),
           daikin_target_temperature = Inr (PFloat 22),
           daikin_mode = Inr (PInt 3), daikin_power = Inr (PInt 1),
           daikin_outside_temperature = Inr (PFloat 5)\<rparr>"
        "PFloat 21.5" "PInt 3" 1 False 15 DaikinAC_init]
  show ?thesis by simp
qed

lemma ac_poll_log:
  "\<exists>us. ac_updates (snd (ac_poll DEBUG t d self)) = ac_updates self @ us
        \<and> (\<forall>u \<in> set us. fst u = t)
        \<and> (fst (ac_poll DEBUG t d self) = None \<longrightarrow> us \<noteq> [])"
proof (cases "fst (ac_poll DEBUG t d self)")
  case (Some e)
  then show ?thesis by (simp add: ac_poll_raises)
next
  case None
  then obtain in_temp mode pow where r: "daikin_inside_temperature d = Inr in_temp"
      "daikin_mode d = Inr mode" "daikin_power d = Inr pow"
    by (cases "daikin_inside_temperature d"; cases "daikin_mode d"; cases "daikin_power d")
       (simp_all add: ac_poll_def read_Inl read_Inr)
  show ?thesis
    by (simp add: ac_poll_ok [OF r] Let_def notify_power_def notify_thermo_mode_def
        notify_target_temperature_def notify_room_temperature_def)
qed

lemma condenser_poll_log:
  "\<exists>us. condenser_updates (snd (condenser_poll t d self)) = condenser_updates self @ us
        \<and> (\<forall>u \<in> set us. fst u = t)
        \<and> (fst (condenser_poll t d self) = None \<longrightarrow> us \<noteq> [])"
  by (cases "daikin_outside_temperature d")
     (simp_all add: condenser_poll_def read_Inl read_Inr notify_outside_temperature_def)

lemma condenser_poll_raises:
  "fst (condenser_poll t d self) = Some e \<Longrightarrow> snd (condenser_poll t d self) = self"
  by (cases "daikin_outside_temperature d")
     (simp_all add: condenser_poll_def read_Inl read_Inr)

lemma DaikinAC_update_level_polled:
  "fst (ac_poll DEBUG (now + UPDATE_THING_SECONDS + late) d self) = None \<Longrightarrow>
   DaikinAC_update_level DEBUG (Wake late d # ts) now self =
     DaikinAC_update_level DEBUG ts (now + UPDATE_THING_SECONDS + late)
       (snd (ac_poll DEBUG (now + UPDATE_THING_SECONDS + late) d self))"
  by (cases "ac_poll DEBUG (now + UPDATE_THING_SECONDS + late) d self") simp

lemma DaikinAC_update_level_raised:
  "fst (ac_poll DEBUG (now + UPDATE_THING_SECONDS + late) d self) = Some e \<Longrightarrow>
   DaikinAC_update_level DEBUG (Wake late d # ts) now self =
     (if e = CancelledError then Returned else Raised e,
      now + UPDATE_THING_SECONDS + late, self)"
  using ac_poll_raises [of DEBUG "now + UPDATE_THING_SECONDS + late" d self e]
  by (cases "ac_poll DEBUG (now + UPDATE_THING_SECONDS + late) d self") simp

lemma DaikinCondenser_update_level_polled:
  "fst (condenser_poll (now + UPDATE_THING_SECONDS + late) d self) = None \<Longrightarrow>
   DaikinCondenser_update_level (Wake late d # ts) now self =
     DaikinCondenser_update_level ts (now + UPDATE_THING_SECONDS + late)
       (snd (condenser_poll (now + UPDATE_THING_SECONDS + late) d self))"
  by (cases "condenser_poll (now + UPDATE_THING_SECONDS + late) d self") simp

lemma DaikinCondenser_update_level_raised:
  "fst (condenser_poll (now + UPDATE_THING_SECONDS + late) d self) = Some e \<Longrightarrow>
   DaikinCondenser_update_level (Wake late d # ts) now self =
     (if e = CancelledError then Returned else Raised e,
      now + UPDATE_THING_SECONDS + late, self)"
  using condenser_poll_raises [of "now + UPDATE_THING_SECONDS + late" d self e]
  by (cases "condenser_poll (now + UPDATE_THING_SECONDS + late) d self") simp

lemma DaikinAC_update_level_log:
  "\<exists>us. ac_updates (snd (snd (DaikinAC_update_level DEBUG ts now self))) = ac_updates self @ us
        \<and> (\<forall>u \<in> set us. now + UPDATE_THING_SECONDS \<le> fst u)
        \<and> (us = [] \<longrightarrow> snd (snd (DaikinAC_update_level DEBUG ts now self)) = self)"
proof (induction ts arbitrary: now self)
  case Nil
  show ?case by simp
next
  case (Cons t ts)
  show ?case
  proof (cases t)
    case Cancel
    then show ?thesis by simp
  next
    case (Wake late d)
    let ?t = "now + UPDATE_THING_SECONDS + late"
    obtain us where us: "ac_updates (snd (ac_poll DEBUG ?t d self)) = ac_updates self @ us"
        "\<forall>u \<in> set us. fst u = ?t" "fst (ac_poll DEBUG ?t d self) = None \<longrightarrow> us \<noteq> []"
      using ac_poll_log by blast
    show ?thesis
    proof (cases "fst (ac_poll DEBUG ?t d self)")
      case (Some e)
      then have "DaikinAC_update_level DEBUG (t # ts) now self =
          (if e = CancelledError then Returned else Raised e, ?t, self)"
        using Wake by (simp only: DaikinAC_update_level_raised)
      then show ?thesis by simp
    next
      case None
      let ?s = "snd (ac_poll DEBUG ?t d self)"
      from None have step: "DaikinAC_update_level DEBUG (t # ts) now self =
          DaikinAC_update_level DEBUG ts ?t ?s"
        using Wake by (simp only: DaikinAC_update_level_polled)
      obtain vs where vs:
          "ac_updates (snd (snd (DaikinAC_update_level DEBUG ts ?t ?s))) = ac_updates ?s @ vs"
          "\<forall>u \<in> set vs. ?t + UPDATE_THING_SECONDS \<le> fst u"
        using Cons.IH by blast
      from None us(3) have "us \<noteq> []" by simp
      with us(1,2) vs show ?thesis
        unfolding step by (intro exI [of _ "us @ vs"]) auto
    qed
  qed
qed

lemma DaikinCondenser_update_level_log:
  "\<exists>us. condenser_updates (snd (snd (DaikinCondenser_update_level ts now self))) =
          condenser_updates self @ us
        \<and> (\<forall>u \<in> set us. now + UPDATE_THING_SECONDS \<le> fst u)
        \<and> (us = [] \<longrightarrow> snd (snd (DaikinCondenser_update_level ts now self)) = self)"
proof (induction ts arbitrary: now self)
  case Nil
  show ?case by simp
next
  case (Cons t ts)
  show ?case
  proof (cases t)
    case Cancel
    then show ?thesis by simp
  next
    case (Wake late d)
    let ?t = "now + UPDATE_THING_SECONDS + late"
    obtain us where us:
        "condenser_updates (snd (condenser_poll ?t d self)) = condenser_updates self @ us"
        "\<forall>u \<in> set us. fst u = ?t" "fst (condenser_poll ?t d self) = None \<longrightarrow> us \<noteq> []"
      using condenser_poll_log by blast
    show ?thesis
    proof (cases "fst (condenser_poll ?t d self)")
      case (Some e)
      then have "DaikinCondenser_update_level (t # ts) now self =
          (if e = CancelledError then Returned else Raised e, ?t, self)"
        using Wake by (simp only: DaikinCondenser_update_level_raised)
      then show ?thesis by simp
    next
      case None
      let ?s = "snd (condenser_poll ?t d self)"
      from None have step: "DaikinCondenser_update_level (t # ts) now self =
          DaikinCondenser_update_level ts ?t ?s"
        using Wake by (simp only: DaikinCondenser_update_level_polled)
      obtain vs where vs:
          "condenser_updates (snd (snd (DaikinCondenser_update_level ts ?t ?s))) =
             condenser_updates ?s @ vs"
          "\<forall>u \<in> set vs. ?t + UPDATE_THING_SECONDS \<le> fst u"
        using Cons.IH by blast
      from None us(3) have "us \<noteq> []" by simp
      with us(1,2) vs show ?thesis
        unfolding step by (intro exI [of _ "us @ vs"]) auto
    qed
  qed
qed

text \<open>
  C10. The objects are created with the placeholders 0.0, 0.0, \<^verbatim>\<open>"off"\<close>, \<^verbatim>\<open>False\<close>
  (and 0.0 for the condenser) and without any notification. Whatever ticks reach a
  loop started at time \<open>now\<close>, each of its notifications is made at
  \<open>now + UPDATE_THING_SECONDS\<close> or later, and as long as it has made none, the object
  still holds the placeholders.
\<close>

theorem no_update_before_first_interval:
  "DaikinAC_init =
     \<lparr>room_temperature = PFloat 0, target_temperature = PFloat 0,
      thermo_mode = PStr ''off'', power_value = PBool False, ac_updates = []\<rparr>
   \<and> DaikinCondenser_init = \<lparr>outside_temperature = PFloat 0, condenser_updates = []\<rparr>
   \<and> (\<forall>u \<in> set (ac_updates (snd (snd (DaikinAC_update_level DEBUG ts now DaikinAC_init)))).
        now + UPDATE_THING_SECONDS \<le> fst u)
   \<and> (ac_updates (snd (snd (DaikinAC_update_level DEBUG ts' now DaikinAC_init))) = []
        \<longrightarrow> snd (snd (DaikinAC_update_level DEBUG ts' now DaikinAC_init)) = DaikinAC_init)
   \<and> (\<forall>u \<in> set (condenser_updates
          (snd (snd (DaikinCondenser_update_level ts now DaikinCondenser_init)))).
        now + UPDATE_THING_SECONDS \<le> fst u)
   \<and> (condenser_updates (snd (snd (DaikinCondenser_update_level ts' now DaikinCondenser_init)))
        = []
        \<longrightarrow> snd (snd (DaikinCondenser_update_level ts' now DaikinCondenser_init)) =
            DaikinCondenser_init)"
proof (intro conjI)
  show "DaikinAC_init =
     \<lparr>room_temperature = PFloat 0, target_temperature = PFloat 0,
      thermo_mode = PStr ''off'', power_value = PBool False, ac_updates = []\<rparr>"
    by (simp add: DaikinAC_init_def)
  show "DaikinCondenser_init = \<lparr>outside_temperature = PFloat 0, condenser_updates = []\<rparr>"
    by (simp add: DaikinCondenser_init_def)
  have a0: "ac_updates DaikinAC_init = []"
    by (simp add: DaikinAC_init_def)
  have c0: "condenser_updates DaikinCondenser_init = []"
    by (simp add: DaikinCondenser_init_def)
  show "\<forall>u \<in> set (ac_updates (snd (snd (DaikinAC_update_level DEBUG ts now DaikinAC_init)))).
        now + UPDATE_THING_SECONDS \<le> fst u"
    using DaikinAC_update_level_log [of DEBUG ts now DaikinAC_init] by (auto simp: a0)
  show "ac_updates (snd (snd (DaikinAC_update_level DEBUG ts' now DaikinAC_init))) = []
        \<longrightarrow> snd (snd (DaikinAC_update_level DEBUG ts' now DaikinAC_init)) = DaikinAC_init"
    using DaikinAC_update_level_log [of DEBUG ts' now DaikinAC_init] by (auto simp: a0)
  show "\<forall>u \<in> set (condenser_updates
          (snd (snd (DaikinCondenser_update_level ts now DaikinCondenser_init)))).
        now + UPDATE_THING_SECONDS \<le> fst u"
    using DaikinCondenser_update_level_log [of ts now DaikinCondenser_init] by (auto simp: c0)
  show "condenser_updates (snd (snd (DaikinCondenser_update_level ts' now DaikinCondenser_init)))
        = []
        \<longrightarrow> snd (snd (DaikinCondenser_update_level ts' now DaikinCondenser_init)) =
            DaikinCondenser_init"
    using DaikinCondenser_update_level_log [of ts' now DaikinCondenser_init] by (auto simp: c0)
qed

theorem no_update_before_first_interval_witness:
  "(15, ''power'', PInt 1) \<in> set (ac_updates (snd (snd (DaikinAC_update_level False
       [Wake 0 \<lparr>daikin_inside_temperature = Inr (PFloat 21.5),
                daikin_target_temperature = Inr (PFloat 22),
                daikin_mode = Inr (PInt 3), daikin_power = Inr (PInt 1),
                daikin_outside_temperature = Inr (PFloat 5)\<rparr>] 0 DaikinAC_init))))
   \<and> 0 + UPDATE_THING_SECONDS \<le> fst ((15, ''power'', PInt 1) :: update)
   \<and> ac_updates (snd (snd (DaikinAC_update_level False [Cancel] 0 DaikinAC_init))) = []
   \<and> snd (snd (DaikinAC_update_level False [Cancel] 0 DaikinAC_init)) = DaikinAC_init
   \<and> (15, ''outside_temperature'', PFloat 5) \<in> set (condenser_updates (snd (snd
       (DaikinCondenser_update_level
         [Wake 0 \<lparr>daikin_inside_temperature = Inr (PFloat 21.5),
                  daikin_target_temperature = Inr (PFloat 22),
                  daikin_mode = Inr (PInt 3), daikin_power = Inr (PInt 1),
                  daikin_outside_temperature = Inr (PFloat 5)\<rparr>] 0 DaikinCondenser_init))))
   \<and> condenser_updates (snd (snd (DaikinCondenser_update_level [Cancel] 0
        DaikinCondenser_init))) = []
   \<and> snd (snd (DaikinCondenser_update_level [Cancel] 0 DaikinCondenser_init)) =
       DaikinCondenser_init"
proof -
  let ?d = "\<lparr>daikin_inside_temperature = Inr (PFloat 21.5),
             daikin_target_temperature = Inr (PFloat 22),
             daikin_mode = Inr (PInt 3), daikin_power = Inr (PInt 1),
             daikin_outside_temperature = Inr (PFloat 5)\<rparr>"
  have a: "(15, ''power'', PInt 1) \<in> set (ac_updates (snd (snd (DaikinAC_update_level False
       [Wake 0 ?d] 0 DaikinAC_init))))"
    by (simp add: ac_poll_ok Let_def notify_power_def notify_thermo_mode_def
        notify_target_temperature_def notify_room_temperature_def UPDATE_THING_SECONDS_def)
  have b: "ac_updates (snd (snd (DaikinAC_update_level False [Cancel] 0 DaikinAC_init))) = []"
    by (simp add: DaikinAC_init_def)
  have c: "(15, ''outside_temperature'', PFloat 5) \<in> set (condenser_updates (snd (snd
       (DaikinCondenser_update_level [Wake 0 ?d] 0 DaikinCondenser_init))))"
    by (simp add: condenser_poll_def read_Inr notify_outside_temperature_def
        UPDATE_THING_SECONDS_def)
  have d: "condenser_updates (snd (snd (DaikinCondenser_update_level [Cancel] 0
        DaikinCondenser_init))) = []"
    by (simp add: DaikinCondenser_init_def)
  note th = no_update_before_first_interval [of False "[Wake 0 ?d]" 0 "[Cancel]"]
  from th a have "0 + UPDATE_THING_SECONDS \<le> fst ((15, ''power'', PInt 1) :: update)"
    by blast
  moreover from th b
  have "snd (snd (DaikinAC_update_level False [Cancel] 0 DaikinAC_init)) = DaikinAC_init"
    by blast
  moreover from th d
  have "snd (snd (DaikinCondenser_update_level [Cancel] 0 DaikinCondenser_init)) =
       DaikinCondenser_init"
    by blast
  ultimately show ?thesis using a b c d by blast
qed

end
